theory Spec2Isabelle
  imports Main
begin

section \<open>Values crossing the boundary of cli.ts\<close>

text \<open>
  Paths, header values and message texts are \<open>string\<close>s. The text of the trace endpoint and
  the IP address cut out of it are lists of UTF-16 code units, because the regular expression
  of \<open>fetchExternalIp\<close> looks at white space beyond the 8-bit range. A \<open>Uint8Array\<close> is a list
  of numbers.
\<close>

type_synonym code_units = "nat list"
type_synonym bytes = "nat list"

datatype scriptType = Module | Script

text \<open>
  The fields of a configured script that cli.ts reads. An optional field that is absent
  (\<open>undefined\<close>) is \<open>None\<close>. The bindings and the credential are handed through to the
  executor untouched and are left out.
\<close>

record script =
  path :: string
  localPort :: "int option"
  localHostname :: "string option"
  localInProcess :: "bool option"

record request =
  req_method :: string
  req_url :: string
  req_headers :: "(string \<times> string) list"

record opts =
  cfConnectingIp :: code_units
  hostname :: "string option"

datatype native_response = Response string int

record response_init =
  init_status :: "int option"
  init_webSocket :: "nat option"

record denoflare_response =
  bodyInit :: string
  init :: "response_init option"

text \<open>What \<open>localRequestServer.fetch\<close> resolves to; \<open>DenoflareResponse.is\<close> tells the two apart.\<close>

datatype fetch_result = Real native_response | Denoflare denoflare_response

text \<open>
  The errors cli.ts throws itself, and \<open>Thrown\<close> for an error raised by a collaborator
  (the network, the file system, the compiler, the executor, the HTTP connection).
  \<open>DeferredOutsideUpgrade\<close> is the error of the translation of a deferred response.
\<close>

datatype error =
    UnsupportedUpgrade string
  | BadResponseStatus "int option"
  | BadResponseExpectedWebsocket
  | UnexpectedTrace code_units
  | DeferredOutsideUpgrade
  | Thrown string

text \<open>A computation stops early either by a thrown error or by \<open>Deno.exit\<close>.\<close>

datatype abort = Throw error | Exit int

text \<open>
  What cli.ts does to the outside, in program order. Console messages keep their fixed text;
  measured durations and printed objects are left out.
\<close>

datatype effect =
    ConsoleLog string
  | ConsoleError string error
  | ReadFile string
  | Emit string
  | StartExecution string scriptType
  | StartManager
  | Run bytes scriptType
  | NetFetch
  | UpgradeWebSocket request
  | ExecutorFetch request opts
  | SetRealWebsocket nat nat
  | RespondWith native_response

section \<open>Effects and failures as values\<close>

type_synonym 'a act = "effect list \<times> (abort + 'a)"

definition ret :: "'a \<Rightarrow> 'a act" where
  "ret x = ([], Inr x)"

definition throw :: "error \<Rightarrow> 'a act" where
  "throw e = ([], Inl (Throw e))"

definition exit :: "int \<Rightarrow> 'a act" where
  "exit n = ([], Inl (Exit n))"

definition perform :: "effect \<Rightarrow> unit act" where
  "perform eff = ([eff], Inr ())"

definition lift :: "error + 'a \<Rightarrow> 'a act" where
  "lift r = (case r of Inl e \<Rightarrow> ([], Inl (Throw e)) | Inr x \<Rightarrow> ([], Inr x))"

definition bind :: "'a act \<Rightarrow> ('a \<Rightarrow> 'b act) \<Rightarrow> 'b act" where
  "bind m f =
     (case m of
        (es, Inl a) \<Rightarrow> (es, Inl a)
      | (es, Inr x) \<Rightarrow> (case f x of (es', r) \<Rightarrow> (es @ es', r)))"

text \<open>\<open>try { m } catch (e) { h e }\<close>: a thrown error is handled, an exit is not.\<close>

definition try_catch :: "'a act \<Rightarrow> (error \<Rightarrow> 'a act) \<Rightarrow> 'a act" where
  "try_catch m h =
     (case m of
        (es, Inl (Throw e)) \<Rightarrow> (case h e of (es', r) \<Rightarrow> (es @ es', r))
      | (es, Inl (Exit n)) \<Rightarrow> (es, Inl (Exit n))
      | (es, Inr x) \<Rightarrow> (es, Inr x))"

section \<open>Start-up: port, execution mode, script kind\<close>

text \<open>
  \<open>const port = script.localPort || 8080\<close>: the default is taken when the field is absent
  and also when it is the falsy number 0.
\<close>

definition port :: "script \<Rightarrow> int" where
  "port s = (case localPort s of None \<Rightarrow> 8080 | Some p \<Rightarrow> if p = 0 then 8080 else p)"

text \<open>\<open>Deno.listen({ port })\<close>: the port the listener is bound to.\<close>

definition listen :: "script \<Rightarrow> int" where
  "listen s = port s"

text \<open>\<open>const runInProcess = !!script.localInProcess\<close>\<close>

definition runInProcess :: "script \<Rightarrow> bool" where
  "runInProcess s = (case localInProcess s of None \<Rightarrow> False | Some b \<Rightarrow> b)"

definition endsWith :: "string \<Rightarrow> string \<Rightarrow> bool" where
  "endsWith s suf = (length suf \<le> length s \<and> drop (length s - length suf) s = suf)"

text \<open>\<open>const scriptType = script.path.endsWith('.ts') ? 'module' : 'script'\<close>\<close>

definition scriptType_of :: "script \<Rightarrow> scriptType" where
  "scriptType_of s = (if endsWith (path s) ''.ts'' then Module else Script)"

section \<open>Computing and running the script\<close>

text \<open>
  The host as cli.ts finds it at one moment: the file system (\<open>Deno.readFile\<close>), the compiler
  (\<open>Deno.emit\<close>, of which only \<open>result.files\<close> is used), \<open>TextEncoder.encode\<close> (applied to a
  possibly absent bundle), and the two executors (\<open>WorkerManager.start\<close>,
  \<open>workerManager.run\<close>, \<open>WorkerExecution.start\<close>), which are not part of cli.ts.
\<close>

record host =
  hst_readFile :: "string \<Rightarrow> error + bytes"
  hst_emit :: "string \<Rightarrow> error + (string \<rightharpoonup> string)"
  hst_encode :: "string option \<Rightarrow> bytes"
  hst_managerStart :: "error + unit"
  hst_run :: "bytes \<Rightarrow> scriptType \<Rightarrow> error + unit"
  hst_executionStart :: "string \<Rightarrow> scriptType \<Rightarrow> error + unit"

definition computeScriptContents :: "host \<Rightarrow> string \<Rightarrow> scriptType \<Rightarrow> bytes act" where
  "computeScriptContents h scriptPath ty =
     (if ty = Script then
        bind (perform (ReadFile scriptPath)) (\<lambda>_. lift (hst_readFile h scriptPath))
      else
        bind (perform (Emit scriptPath)) (\<lambda>_.
        bind (lift (hst_emit h scriptPath)) (\<lambda>files.
        bind (perform (ConsoleLog ''result'')) (\<lambda>_.
        let workerJs = files ''deno:///bundle.js'';
            rt = hst_encode h workerJs
        in bind (perform (ConsoleLog (''Compiled '' @ scriptPath @ '' into module contents'')))
             (\<lambda>_. ret rt)))))"

text \<open>
  \<open>runScript\<close>: the contents are computed outside the \<open>try\<close>; a failure of
  \<open>workerManager.run\<close> is logged and followed by \<open>Deno.exit(1)\<close>.
\<close>

definition runScript :: "host \<Rightarrow> script \<Rightarrow> scriptType \<Rightarrow> unit act" where
  "runScript h s ty =
     bind (perform (ConsoleLog (''runScript: '' @ path s))) (\<lambda>_.
     bind (computeScriptContents h (path s) ty) (\<lambda>scriptContents.
     try_catch
       (bind (perform (Run scriptContents ty)) (\<lambda>_. lift (hst_run h scriptContents ty)))
       (\<lambda>e. bind (perform (ConsoleError ''Error running script'' e)) (\<lambda>_. exit 1))))"

section \<open>The process: request server, watcher and timers\<close>

datatype local_server = WorkerExecution string scriptType | WorkerManager

text \<open>
  The state of the running process that the reload mechanism touches: which request server
  was created, whether the loop over \<open>Deno.watchFs(script.path)\<close> was started, the variable
  \<open>timeoutId\<close> of that loop, the pending timers of the runtime as pairs of identifier and
  due time in milliseconds, the next timer identifier, every call of \<open>runScript\<close> made by a
  timer with the time it was made at, and whether the process has ended.
\<close>

record process =
  pr_server :: local_server
  pr_watching :: bool
  pr_timeoutId :: "nat option"
  pr_timers :: "(nat \<times> nat) list"
  pr_nextTimer :: nat
  pr_reloads :: "(nat \<times> unit act) list"
  pr_ended :: bool

definition createLocalRequestServer :: "host \<Rightarrow> script \<Rightarrow> process act" where
  "createLocalRequestServer h s =
     (let scriptType = scriptType_of s in
      if runInProcess s then
        bind (perform (StartExecution (path s) scriptType)) (\<lambda>_.
        bind (lift (hst_executionStart h (path s) scriptType)) (\<lambda>_.
        ret \<lparr>pr_server = WorkerExecution (path s) scriptType, pr_watching = False,
             pr_timeoutId = None, pr_timers = [], pr_nextTimer = 0, pr_reloads = [],
             pr_ended = False\<rparr>))
      else
        bind (perform StartManager) (\<lambda>_.
        bind (lift (hst_managerStart h)) (\<lambda>_.
        bind (runScript h s scriptType) (\<lambda>_.
        ret \<lparr>pr_server = WorkerManager, pr_watching = True,
             pr_timeoutId = None, pr_timers = [], pr_nextTimer = 0, pr_reloads = [],
             pr_ended = False\<rparr>))))"

text \<open>
  A file-system event, with the host as it is from this event until the next one (the
  contents of the files after the modification the event reports).
\<close>

record fs_event =
  ev_time :: nat
  ev_kind :: string
  ev_paths :: "string list"
  ev_host :: host

definition clearTimeout :: "nat option \<Rightarrow> process \<Rightarrow> process" where
  "clearTimeout tid p =
     (case tid of
        None \<Rightarrow> p
      | Some i \<Rightarrow> p\<lparr>pr_timers := filter (\<lambda>(j, due). j \<noteq> i) (pr_timers p)\<rparr>)"

definition setTimeout :: "nat \<Rightarrow> nat \<Rightarrow> process \<Rightarrow> nat \<times> process" where
  "setTimeout now delay p =
     (pr_nextTimer p,
      p\<lparr>pr_timers := pr_timers p @ [(pr_nextTimer p, now + delay)],
        pr_nextTimer := Suc (pr_nextTimer p)\<rparr>)"

text \<open>The body of the watcher loop for one event arriving at time \<open>now\<close>.\<close>

definition on_event :: "script \<Rightarrow> nat \<Rightarrow> fs_event \<Rightarrow> process \<Rightarrow> process" where
  "on_event s now ev p =
     (if pr_watching p \<and> \<not> pr_ended p \<and> ev_kind ev = ''modify'' \<and> path s \<in> set (ev_paths ev)
      then
        (let p1 = clearTimeout (pr_timeoutId p) p;
             (i, p2) = setTimeout now 500 p1
         in p2\<lparr>pr_timeoutId := Some i\<rparr>)
      else p)"

text \<open>
  A timer fires: \<open>runScript\<close> is called on the host as it is then. The process ends when the
  call ends in \<open>Deno.exit\<close>, and also when its promise is rejected, since nothing handles the
  rejection of a timer callback and the runtime ends the process on an unhandled rejection.
\<close>

definition fire :: "host \<Rightarrow> script \<Rightarrow> nat \<Rightarrow> process \<Rightarrow> process" where
  "fire h s due p =
     (if pr_ended p then p
      else
        (let r = runScript h s (scriptType_of s)
         in p\<lparr>pr_reloads := pr_reloads p @ [(due, r)],
              pr_ended := (case snd r of Inl _ \<Rightarrow> True | Inr _ \<Rightarrow> False)\<rparr>))"

text \<open>Time advances to \<open>now\<close>: every pending timer that is due by then fires, oldest first.\<close>

definition fire_due :: "host \<Rightarrow> script \<Rightarrow> nat \<Rightarrow> process \<Rightarrow> process" where
  "fire_due h s now p =
     foldl (\<lambda>q (i, due). fire h s due q)
       (p\<lparr>pr_timers := filter (\<lambda>(i, due). now < due) (pr_timers p)\<rparr>)
       (filter (\<lambda>(i, due). due \<le> now) (pr_timers p))"

text \<open>
  The process lives through the events in order and then until the time \<open>horizon\<close>. The
  timers due before an event fire on the host as it was before that event.
\<close>

fun watch_run :: "script \<Rightarrow> host \<Rightarrow> fs_event list \<Rightarrow> nat \<Rightarrow> process \<Rightarrow> process" where
  "watch_run s h [] horizon p = fire_due h s horizon p"
| "watch_run s h (ev # evs) horizon p =
     watch_run s (ev_host ev) evs horizon (on_event s (ev_time ev) ev (fire_due h s (ev_time ev) p))"

section \<open>The memoized external IP\<close>

text \<open>
  White space as the class \<open>\s\<close> of a regular expression sees it, on UTF-16 code units:
  tab, line feed, vertical tab, form feed, carriage return, space, no-break space, the
  byte order mark, the line and paragraph separators and the space separators.
\<close>

definition js_space :: "nat \<Rightarrow> bool" where
  "js_space u =
     (u \<in> {9, 10, 11, 12, 13, 32, 160, 5760, 8232, 8233, 8239, 8287, 12288, 65279}
      \<or> (8192 \<le> u \<and> u \<le> 8202))"

text \<open>
  \<open>/ip=([^\s]*)/.exec(trace)\<close>: the leftmost \<open>ip=\<close> matches, since the group may be empty;
  the result is the group \<open>m[1]\<close>, the longest run without white space after it, or \<open>None\<close>
  when there is no match.
\<close>

fun exec_ip :: "code_units \<Rightarrow> code_units option" where
  "exec_ip [] = None"
| "exec_ip (u # us) =
     (if take 3 (u # us) = [105, 112, 61]
      then Some (takeWhile (\<lambda>v. \<not> js_space v) (drop 3 (u # us)))
      else exec_ip us)"

text \<open>
  What the bridge finds outside at the moment of one request: the outcome a fetch of the
  trace text would have, the native upgrade handshake (giving the real socket and the pending
  response), the executor's \<open>fetch\<close>, the two methods of \<open>DenoflareResponse\<close> that are not
  part of cli.ts, and \<open>respondWith\<close>.
\<close>

record bridge =
  br_trace :: "error + code_units"
  br_upgradeWebSocket :: "request \<Rightarrow> error + nat \<times> native_response"
  br_fetch :: "request \<Rightarrow> opts \<Rightarrow> error + fetch_result"
  br_toRealResponse :: "denoflare_response \<Rightarrow> error + native_response"
  br_getDenoflareServerWebSocket :: "denoflare_response \<Rightarrow> nat option"
  br_respondWith :: "native_response \<Rightarrow> error + unit"

definition fetchExternalIp :: "bridge \<Rightarrow> code_units act" where
  "fetchExternalIp b =
     bind (perform (ConsoleLog ''fetchExternalIp: Fetching...'')) (\<lambda>_.
     bind (perform NetFetch) (\<lambda>_.
     bind (lift (br_trace b)) (\<lambda>trace.
     case exec_ip trace of
       None \<Rightarrow> throw (UnexpectedTrace trace)
     | Some externalIp \<Rightarrow>
         bind (perform (ConsoleLog ''fetchExternalIp: Determined'')) (\<lambda>_. ret externalIp))))"

text \<open>
  \<open>memoize\<close>: the closure variable \<open>cached\<close> is passed in and returned. It is written only
  after \<open>fn\<close> has returned normally. The values here are strings, never \<open>undefined\<close>.
\<close>

definition memoize :: "'a act \<Rightarrow> 'a option \<Rightarrow> 'a act \<times> 'a option" where
  "memoize fn cached =
     (case cached of
        Some v \<Rightarrow> (ret v, cached)
      | None \<Rightarrow>
          (case fn of
             (es, Inl a) \<Rightarrow> ((es, Inl a), None)
           | (es, Inr rt) \<Rightarrow> ((es, Inr rt), Some rt)))"

definition computeExternalIp :: "bridge \<Rightarrow> code_units option \<Rightarrow> code_units act \<times> code_units option" where
  "computeExternalIp b cached = memoize (fetchExternalIp b) cached"

text \<open>Successive calls of \<open>computeExternalIp\<close>, one per request, each on the outside of its moment.\<close>

fun computeExternalIp_calls :: "bridge list \<Rightarrow> code_units option \<Rightarrow> code_units act list" where
  "computeExternalIp_calls [] cached = []"
| "computeExternalIp_calls (b # bs) cached =
     (case computeExternalIp b cached of (a, cached') \<Rightarrow> a # computeExternalIp_calls bs cached')"

section \<open>Handling requests\<close>

text \<open>
  \<open>Headers.get\<close> on the entries of a \<open>Headers\<close> object (names in lower case): the values of
  the name joined by comma and space, or \<open>None\<close> (\<open>null\<close>) when there is none.
\<close>

fun join_values :: "string list \<Rightarrow> string" where
  "join_values [] = []"
| "join_values [v] = v"
| "join_values (v # w # vs) = v @ '', '' @ join_values (w # vs)"

definition headers_get :: "(string \<times> string) list \<Rightarrow> string \<Rightarrow> string option" where
  "headers_get hs name =
     (case map snd (filter (\<lambda>(n, v). n = name) hs) of
        [] \<Rightarrow> None
      | vs \<Rightarrow> Some (join_values vs))"

text \<open>\<open>request.headers.get('upgrade') || undefined\<close>: \<open>null\<close> and the empty string give \<open>undefined\<close>.\<close>

definition upgrade_of :: "request \<Rightarrow> string option" where
  "upgrade_of r =
     (case headers_get (req_headers r) ''upgrade'' of
        None \<Rightarrow> None
      | Some v \<Rightarrow> if v = [] then None else Some v)"

text \<open>\<open>await respondWith(res).catch(e => consoleError(`Error in respondWith`, e))\<close>\<close>

definition respond :: "bridge \<Rightarrow> native_response \<Rightarrow> unit act" where
  "respond b res =
     bind (perform (RespondWith res)) (\<lambda>_.
     try_catch (lift (br_respondWith b res))
       (\<lambda>e. perform (ConsoleError ''Error in respondWith'' e)))"

text \<open>
  The check of the executor's response on the upgrade path (lines 140 to 145): a response
  that is a \<open>DenoflareResponse\<close> with an \<open>init\<close> that has a \<open>webSocket\<close> must have status 101
  and a server socket, which is then tied to the real socket.
\<close>

definition wire :: "bridge \<Rightarrow> fetch_result \<Rightarrow> nat \<Rightarrow> unit act" where
  "wire b res websocket =
     (case res of
        Real r \<Rightarrow> ret ()
      | Denoflare dr \<Rightarrow>
          (case init dr of
             None \<Rightarrow> ret ()
           | Some i \<Rightarrow>
               (case init_webSocket i of
                  None \<Rightarrow> ret ()
                | Some w \<Rightarrow>
                    if init_status i \<noteq> Some 101 then throw (BadResponseStatus (init_status i))
                    else
                      (case br_getDenoflareServerWebSocket b dr of
                         None \<Rightarrow> throw BadResponseExpectedWebsocket
                       | Some serverWebsocket \<Rightarrow>
                           perform (SetRealWebsocket serverWebsocket websocket)))))"

text \<open>The body of the \<open>try\<close> after the external IP is known.\<close>

definition serve :: "bridge \<Rightarrow> script \<Rightarrow> request \<Rightarrow> code_units \<Rightarrow> unit act" where
  "serve b s r ip =
     (let info = \<lparr>cfConnectingIp = ip, hostname = localHostname s\<rparr> in
      case upgrade_of r of
        Some upgrade \<Rightarrow>
          if upgrade \<noteq> ''websocket'' then throw (UnsupportedUpgrade upgrade)
          else
            bind (perform (UpgradeWebSocket r)) (\<lambda>_.
            bind (lift (br_upgradeWebSocket b r)) (\<lambda>(websocket, response).
            bind (perform (ExecutorFetch r info)) (\<lambda>_.
            bind (lift (br_fetch b r info)) (\<lambda>res.
            bind (wire b res websocket) (\<lambda>_.
            respond b response)))))
      | None \<Rightarrow>
          bind (perform (ExecutorFetch r info)) (\<lambda>_.
          bind (lift (br_fetch b r info)) (\<lambda>res.
          bind (case res of
                  Denoflare dr \<Rightarrow> lift (br_toRealResponse b dr)
                | Real n \<Rightarrow> ret n) (\<lambda>res'.
          respond b res'))))"

text \<open>One turn of the loop of \<open>handle\<close>: the \<open>try\<close> with its \<open>catch\<close>, and the cache after it.\<close>

definition handle_request ::
  "bridge \<Rightarrow> script \<Rightarrow> request \<Rightarrow> code_units option \<Rightarrow> unit act \<times> code_units option" where
  "handle_request b s r cached =
     (case computeExternalIp b cached of
        (ipa, cached') \<Rightarrow>
          (try_catch (bind ipa (serve b s r))
             (\<lambda>e. perform (ConsoleError ''Error servicing request'' e)),
           cached'))"





text \<open>
  Modelled from the spec: \<open>DenoflareResponse.toRealResponse\<close>, whose file is not among the
  sources. The specification says of the bridge that it must "translate a deferred response
  to an error (illegal outside upgrade), translate a normal abstraction response to a native
  response", and that "translation to a native response is only valid for the non-deferred
  form". A response is deferred when it carries a WebSocket. The native response of a normal
  one is given by \<open>native_of\<close>, about which the specification says nothing.
\<close>

definition deferred :: "denoflare_response \<Rightarrow> bool" where
  "deferred dr =
     (case init dr of None \<Rightarrow> False | Some i \<Rightarrow> (case init_webSocket i of None \<Rightarrow> False | Some w \<Rightarrow> True))"

definition toRealResponse ::
  "(denoflare_response \<Rightarrow> native_response) \<Rightarrow> denoflare_response \<Rightarrow> error + native_response" where
  "toRealResponse native_of dr =
     (if deferred dr then Inl DeferredOutsideUpgrade else Inr (native_of dr))"

section \<open>Notions used to state the properties\<close>

text \<open>Which effect an entry of a trace is.\<close>

fun is_ExecutorFetch :: "effect \<Rightarrow> bool" where
  "is_ExecutorFetch (ExecutorFetch r i) = True"
| "is_ExecutorFetch _ = False"

fun is_UpgradeWebSocket :: "effect \<Rightarrow> bool" where
  "is_UpgradeWebSocket (UpgradeWebSocket r) = True"
| "is_UpgradeWebSocket _ = False"

fun is_RespondWith :: "effect \<Rightarrow> bool" where
  "is_RespondWith (RespondWith n) = True"
| "is_RespondWith _ = False"

fun is_SetRealWebsocket :: "effect \<Rightarrow> bool" where
  "is_SetRealWebsocket (SetRealWebsocket a b) = True"
| "is_SetRealWebsocket _ = False"

text \<open>The effects of a lookup of the external IP: console lines and the network fetch only.\<close>

fun lookup_effect :: "effect \<Rightarrow> bool" where
  "lookup_effect (ConsoleLog m) = True"
| "lookup_effect NetFetch = True"
| "lookup_effect _ = False"

text \<open>A computation that does not end the process.\<close>

definition no_exit :: "'a act \<Rightarrow> bool" where
  "no_exit a = (case snd a of Inl (Exit n) \<Rightarrow> False | _ \<Rightarrow> True)"

text \<open>
  A burst of events after an event at time \<open>t\<close>: each one arrives no earlier than the one
  before it and less than 500 ms after it.
\<close>

fun rapid :: "nat \<Rightarrow> fs_event list \<Rightarrow> bool" where
  "rapid t [] = True"
| "rapid t (ev # evs) = (t \<le> ev_time ev \<and> ev_time ev < t + 500 \<and> rapid (ev_time ev) evs)"

text \<open>The time of the last event of a burst that started at \<open>t\<close>, and the host after it.\<close>

definition last_time :: "nat \<Rightarrow> fs_event list \<Rightarrow> nat" where
  "last_time t evs = (if evs = [] then t else ev_time (last evs))"

definition last_host :: "host \<Rightarrow> fs_event list \<Rightarrow> host" where
  "last_host h evs = (if evs = [] then h else ev_host (last evs))"

text \<open>The effects by which cli.ts itself reads, compiles or runs the script.\<close>

fun computes_or_runs :: "effect \<Rightarrow> bool" where
  "computes_or_runs (ReadFile p) = True"
| "computes_or_runs (Emit p) = True"
| "computes_or_runs (Run c ty) = True"
| "computes_or_runs _ = False"

section \<open>Concrete inputs\<close>

definition demo_script :: script where
  "demo_script = \<lparr>path = ''worker.js'', localPort = None, localHostname = None, localInProcess = None\<rparr>"

definition demo_module :: script where
  "demo_module = \<lparr>path = ''worker.ts'', localPort = Some 3000, localHostname = None, localInProcess = None\<rparr>"

definition demo_inprocess :: script where
  "demo_inprocess = \<lparr>path = ''worker.ts'', localPort = Some 0, localHostname = None, localInProcess = Some True\<rparr>"

definition ok_host :: host where
  "ok_host = \<lparr>hst_readFile = (\<lambda>p. Inr [1, 2, 3]),
              hst_emit = (\<lambda>p. Inr [''deno:///bundle.js'' \<mapsto> ''x'']),
              hst_encode = (\<lambda>w. case w of None \<Rightarrow> [] | Some t \<Rightarrow> map of_char t),
              hst_managerStart = Inr (),
              hst_run = (\<lambda>c ty. Inr ()),
              hst_executionStart = (\<lambda>p ty. Inr ())\<rparr>"

text \<open>The host after an edit that the executor refuses to run.\<close>

definition broken_host :: host where
  "broken_host = ok_host\<lparr>hst_readFile := (\<lambda>p. Inr [4, 5]), hst_run := (\<lambda>c ty. Inl (Thrown ''SyntaxError''))\<rparr>"

definition modify_event :: "string \<Rightarrow> nat \<Rightarrow> host \<Rightarrow> fs_event" where
  "modify_event p t h = \<lparr>ev_time = t, ev_kind = ''modify'', ev_paths = [p], ev_host = h\<rparr>"

definition started :: process where
  "started = \<lparr>pr_server = WorkerManager, pr_watching = True, pr_timeoutId = None, pr_timers = [],
              pr_nextTimer = 0, pr_reloads = [], pr_ended = False\<rparr>"

definition started_inprocess :: process where
  "started_inprocess = \<lparr>pr_server = WorkerExecution ''worker.ts'' Module, pr_watching = False,
              pr_timeoutId = None, pr_timers = [], pr_nextTimer = 0, pr_reloads = [], pr_ended = False\<rparr>"

text \<open>The code units of three lines: \<open>fl=1\<close>, \<open>ip=1.2.3.4\<close>, \<open>ts=5\<close>.\<close>

definition ip_trace :: code_units where
  "ip_trace = [102, 108, 61, 49, 10, 105, 112, 61, 49, 46, 50, 46, 51, 46, 52, 10, 116, 115, 61, 53]"

definition plain_bridge :: bridge where
  "plain_bridge =
     \<lparr>br_trace = Inr ip_trace,
      br_upgradeWebSocket = (\<lambda>r. Inr (7, Response [] 101)),
      br_fetch = (\<lambda>r i. Inr (Real (Response ''hello'' 200))),
      br_toRealResponse = (\<lambda>dr. Inr (Response (bodyInit dr) 200)),
      br_getDenoflareServerWebSocket =
        (\<lambda>dr. case init dr of None \<Rightarrow> None | Some i \<Rightarrow> init_webSocket i),
      br_respondWith = (\<lambda>n. Inr ())\<rparr>"

definition offline_bridge :: bridge where
  "offline_bridge = plain_bridge\<lparr>br_trace := Inl (Thrown ''network unreachable'')\<rparr>"

definition socket_response :: "int option \<Rightarrow> denoflare_response" where
  "socket_response st = \<lparr>bodyInit = [], init = Some \<lparr>init_status = st, init_webSocket = Some 3\<rparr>\<rparr>"

definition socket_bridge :: "int option \<Rightarrow> bridge" where
  "socket_bridge st = plain_bridge\<lparr>br_fetch := (\<lambda>r i. Inr (Denoflare (socket_response st)))\<rparr>"

definition get_request :: "(string \<times> string) list \<Rightarrow> request" where
  "get_request hs = \<lparr>req_method = ''GET'', req_url = ''/'', req_headers = hs\<rparr>"


text \<open>Inputs for the translation of responses outside an upgrade.\<close>

definition plain_native :: "denoflare_response \<Rightarrow> native_response" where
  "plain_native dr = Response (bodyInit dr) 200"

definition body_response :: denoflare_response where
  "body_response = \<lparr>bodyInit = ''hi'', init = None\<rparr>"

definition translating_bridge :: "denoflare_response \<Rightarrow> bridge" where
  "translating_bridge dr =
     plain_bridge\<lparr>br_fetch := (\<lambda>r i. Inr (Denoflare dr)),
                  br_toRealResponse := toRealResponse plain_native\<rparr>"






section \<open>Laws of the effect combinators\<close>

lemma bind_perform: "bind (perform eff) f = (case f () of (es, r) \<Rightarrow> (eff # es, r))"
  by (simp add: bind_def perform_def)

lemma bind_lift: "bind (lift v) f = (case v of Inl e \<Rightarrow> ([], Inl (Throw e)) | Inr x \<Rightarrow> f x)"
  by (simp add: bind_def lift_def split: sum.splits prod.splits)


lemma bind_throw: "bind (throw e) f = ([], Inl (Throw e))"
  by (simp add: bind_def throw_def)

lemma bind_pair:
  "bind (es, v) f = (case v of Inl a \<Rightarrow> (es, Inl a) | Inr x \<Rightarrow> (case f x of (es', r) \<Rightarrow> (es @ es', r)))"
  by (simp add: bind_def split: sum.splits)

lemma no_exit_ret: "no_exit (ret x)" by (simp add: no_exit_def ret_def)

lemma no_exit_throw: "no_exit (throw e)" by (simp add: no_exit_def throw_def)

lemma no_exit_perform: "no_exit (perform eff)" by (simp add: no_exit_def perform_def)

lemma no_exit_lift: "no_exit (lift v)" by (simp add: no_exit_def lift_def split: sum.splits)

lemma no_exit_bind:
  assumes "no_exit m" and "\<And>x. no_exit (f x)"
  shows "no_exit (bind m f)"
proof (cases m)
  case (Pair es v)
  show ?thesis
  proof (cases v)
    case (Inl a)
    with Pair assms(1) show ?thesis by (simp add: bind_def no_exit_def)
  next
    case (Inr x)
    obtain es' r where fx: "f x = (es', r)" by (cases "f x")
    from assms(2) [of x] fx have "no_exit (es @ es', r)" by (simp add: no_exit_def)
    with Pair Inr fx show ?thesis by (simp add: bind_def)
  qed
qed



section \<open>Running the script\<close>

lemma runScript_run_failure:
  assumes "computeScriptContents h (path s) ty = (es, Inr c)" and "hst_run h c ty = Inl e"
  shows "runScript h s ty =
           (ConsoleLog (''runScript: '' @ path s) # es @ [Run c ty, ConsoleError ''Error running script'' e],
            Inl (Exit 1))"
  using assms
  by (simp add: runScript_def bind_def perform_def try_catch_def lift_def exit_def)

lemma runScript_compute_failure:
  assumes "computeScriptContents h (path s) ty = (es, Inl a)"
  shows "runScript h s ty = (ConsoleLog (''runScript: '' @ path s) # es, Inl a)"
  using assms
  by (simp add: runScript_def bind_def perform_def)

section \<open>Timers\<close>

lemma fire_due_pending:
  assumes "pr_timers p = [(i, due)]" and "now < due"
  shows "fire_due h s now p = p"
  using assms by (simp add: fire_due_def)

lemma fire_due_none:
  assumes "pr_timers p = []"
  shows "fire_due h s now p = p"
  using assms by (simp add: fire_due_def)

lemma fire_due_one:
  assumes "pr_timers p = [(i, due)]" and "due \<le> now" and "\<not> pr_ended p"
  shows "fire_due h s now p =
           p\<lparr>pr_timers := [], pr_reloads := pr_reloads p @ [(due, runScript h s (scriptType_of s))],
             pr_ended := (case snd (runScript h s (scriptType_of s)) of Inl _ \<Rightarrow> True | Inr _ \<Rightarrow> False)\<rparr>"
  using assms by (simp add: fire_due_def fire_def Let_def)

lemma on_event_pending:
  assumes "pr_watching p" and "\<not> pr_ended p" and "ev_kind ev = ''modify''" and "path s \<in> set (ev_paths ev)"
    and "pr_timers p = [(i, due)]" and "pr_timeoutId p = Some i"
  shows "on_event s now ev p =
           p\<lparr>pr_timers := [(pr_nextTimer p, now + 500)], pr_nextTimer := Suc (pr_nextTimer p),
             pr_timeoutId := Some (pr_nextTimer p)\<rparr>"
  using assms by (simp add: on_event_def clearTimeout_def setTimeout_def)

lemma on_event_first:
  assumes "pr_watching p" and "\<not> pr_ended p" and "ev_kind ev = ''modify''" and "path s \<in> set (ev_paths ev)"
    and "pr_timers p = []" and "pr_timeoutId p = None"
  shows "on_event s now ev p =
           p\<lparr>pr_timers := [(pr_nextTimer p, now + 500)], pr_nextTimer := Suc (pr_nextTimer p),
             pr_timeoutId := Some (pr_nextTimer p)\<rparr>"
  using assms by (simp add: on_event_def clearTimeout_def setTimeout_def)

lemma burst_pending:
  assumes "pr_watching p" and "\<not> pr_ended p"
    and "pr_timers p = [(i, t + 500)]" and "pr_timeoutId p = Some i"
    and "\<forall>ev\<in>set evs. ev_kind ev = ''modify'' \<and> path s \<in> set (ev_paths ev)"
    and "rapid t evs" and "last_time t evs + 500 \<le> horizon"
  shows "pr_reloads (watch_run s h evs horizon p) =
           pr_reloads p @ [(last_time t evs + 500, runScript (last_host h evs) s (scriptType_of s))]
         \<and> pr_timers (watch_run s h evs horizon p) = []
         \<and> pr_nextTimer (watch_run s h evs horizon p) = pr_nextTimer p + length evs"
  using assms
proof (induction evs arbitrary: p i t h)
  case Nil
  then show ?case by (simp add: fire_due_one last_time_def last_host_def)
next
  case (Cons ev evs)
  let ?q = "p\<lparr>pr_timers := [(pr_nextTimer p, ev_time ev + 500)], pr_nextTimer := Suc (pr_nextTimer p),
             pr_timeoutId := Some (pr_nextTimer p)\<rparr>"
  from Cons.prems have quiet: "fire_due h s (ev_time ev) p = p"
    by (simp add: fire_due_pending)
  from Cons.prems have step: "on_event s (ev_time ev) ev p = ?q"
    by (simp add: on_event_pending)
  have run: "watch_run s h (ev # evs) horizon p = watch_run s (ev_host ev) evs horizon ?q"
    by (simp add: quiet step)
  have lt: "last_time (ev_time ev) evs = last_time t (ev # evs)"
    and lh: "last_host (ev_host ev) evs = last_host h (ev # evs)"
    by (simp_all add: last_time_def last_host_def)
  have "pr_reloads (watch_run s (ev_host ev) evs horizon ?q) =
           pr_reloads ?q @ [(last_time (ev_time ev) evs + 500, runScript (last_host (ev_host ev) evs) s (scriptType_of s))]
         \<and> pr_timers (watch_run s (ev_host ev) evs horizon ?q) = []
         \<and> pr_nextTimer (watch_run s (ev_host ev) evs horizon ?q) = pr_nextTimer ?q + length evs"
  proof (rule Cons.IH)
    show "pr_watching ?q" using Cons.prems by simp
    show "\<not> pr_ended ?q" using Cons.prems by simp
    show "pr_timers ?q = [(pr_nextTimer p, ev_time ev + 500)]" by simp
    show "pr_timeoutId ?q = Some (pr_nextTimer p)" by simp
    show "\<forall>ev\<in>set evs. ev_kind ev = ''modify'' \<and> path s \<in> set (ev_paths ev)" using Cons.prems by simp
    show "rapid (ev_time ev) evs" using Cons.prems by simp
    show "last_time (ev_time ev) evs + 500 \<le> horizon" using Cons.prems lt by simp
  qed
  then show ?case unfolding run lt lh by simp
qed

lemma not_watching_idle:
  assumes "\<not> pr_watching p" and "pr_timers p = []"
  shows "watch_run s h evs horizon p = p"
  using assms
proof (induction evs arbitrary: h)
  case Nil
  then show ?case by (simp add: fire_due_none)
next
  case (Cons ev evs)
  have "on_event s (ev_time ev) ev p = p" using Cons.prems by (simp add: on_event_def)
  with Cons show ?case by (simp add: fire_due_none)
qed

section \<open>The lookup of the external IP\<close>

lemma no_exit_fetchExternalIp: "no_exit (fetchExternalIp b)"
  unfolding fetchExternalIp_def
  by (intro no_exit_bind no_exit_perform no_exit_lift)
     (auto intro!: no_exit_bind no_exit_perform no_exit_ret no_exit_throw split: option.splits)

lemma no_exit_computeExternalIp: "no_exit (fst (computeExternalIp b cached))"
proof (cases cached)
  case None
  obtain es v where f: "fetchExternalIp b = (es, v)" by (cases "fetchExternalIp b")
  with no_exit_fetchExternalIp [of b] have "no_exit (es, v)" by simp
  with None f show ?thesis
    by (cases v) (simp_all add: computeExternalIp_def memoize_def)
next
  case (Some ip)
  then show ?thesis by (simp add: computeExternalIp_def memoize_def no_exit_ret)
qed

lemma lookup_effects_fetch: "list_all lookup_effect (fst (fetchExternalIp b))"
  by (simp add: fetchExternalIp_def bind_def perform_def lift_def ret_def throw_def
      split: sum.splits option.splits)

lemma lookup_effects: "list_all lookup_effect (fst (fst (computeExternalIp b cached)))"
proof (cases cached)
  case None
  obtain es v where f: "fetchExternalIp b = (es, v)" by (cases "fetchExternalIp b")
  with lookup_effects_fetch [of b] have "list_all lookup_effect es" by simp
  with None f show ?thesis
    by (cases v) (simp_all add: computeExternalIp_def memoize_def)
next
  case (Some ip)
  then show ?thesis by (simp add: computeExternalIp_def memoize_def ret_def)
qed

lemma lookup_not_fetch: "list_all lookup_effect es \<Longrightarrow> \<not> list_ex is_ExecutorFetch es"
  by (induction es) (auto elim: lookup_effect.elims)

lemma lookup_not_upgrade: "list_all lookup_effect es \<Longrightarrow> \<not> list_ex is_UpgradeWebSocket es"
  by (induction es) (auto elim: lookup_effect.elims)

lemma lookup_not_respond: "list_all lookup_effect es \<Longrightarrow> \<not> list_ex is_RespondWith es"
  by (induction es) (auto elim: lookup_effect.elims)

lemma lookup_not_wire: "list_all lookup_effect es \<Longrightarrow> \<not> list_ex is_SetRealWebsocket es"
  by (induction es) (auto elim: lookup_effect.elims)

lemma lookup_cases:
  obtains (failed) es e c' where "computeExternalIp b cached = ((es, Inl (Throw e)), c')"
  | (found) es ip c' where "computeExternalIp b cached = ((es, Inr ip), c')"
proof -
  obtain es v c' where eq: "computeExternalIp b cached = ((es, v), c')"
    by (cases "computeExternalIp b cached") auto
  show thesis
  proof (cases v)
    case (Inl a)
    from no_exit_computeExternalIp [of b cached] eq Inl obtain e where "a = Throw e"
      by (cases a) (simp_all add: no_exit_def)
    with eq Inl show thesis by (intro failed) simp
  next
    case (Inr ip)
    with eq show thesis by (intro found) simp
  qed
qed

lemma calls_cached:
  "computeExternalIp_calls bs (Some ip) = replicate (length bs) ([], Inr ip)"
  by (induction bs) (simp_all add: computeExternalIp_def memoize_def ret_def)

lemma calls_failing:
  assumes "\<forall>b\<in>set failing. \<exists>es a. fetchExternalIp b = (es, Inl a)"
  shows "computeExternalIp_calls (failing @ rest) None =
           map fetchExternalIp failing @ computeExternalIp_calls rest None"
  using assms
proof (induction failing)
  case Nil
  show ?case by simp
next
  case (Cons b failing)
  from Cons.prems obtain es a where f: "fetchExternalIp b = (es, Inl a)" by auto
  then have "computeExternalIp b None = ((es, Inl a), None)"
    by (simp add: computeExternalIp_def memoize_def)
  with Cons f show ?case by simp
qed

lemma calls_after_first_success:
  assumes "fetchExternalIp b = (es, Inr ip)"
  shows "computeExternalIp_calls (b # later) None = (es, Inr ip) # replicate (length later) ([], Inr ip)"
  using assms by (simp add: computeExternalIp_def memoize_def calls_cached)

section \<open>One request, one connection, the listener\<close>





lemma respond_shape: "\<exists>es'. respond b n = (RespondWith n # es', Inr ())"
  by (cases "br_respondWith b n")
     (simp_all add: respond_def bind_def lift_def try_catch_def perform_def)


lemma handle_request_lookup_failed:
  assumes "computeExternalIp b cached = ((es, Inl (Throw e)), c')"
  shows "handle_request b s r cached = ((es @ [ConsoleError ''Error servicing request'' e], Inr ()), c')"
  using assms by (simp add: handle_request_def bind_pair try_catch_def perform_def)

lemma handle_request_served:
  assumes "computeExternalIp b cached = ((es, Inr ip), c')"
  shows "handle_request b s r cached =
           (try_catch (bind (es, Inr ip) (serve b s r))
              (\<lambda>e. perform (ConsoleError ''Error servicing request'' e)), c')"
  using assms by (simp add: handle_request_def)




















section \<open>The concrete inputs evaluated\<close>

lemma exec_ip_trace: "exec_ip ip_trace = Some [49, 46, 50, 46, 51, 46, 52]"
  by (simp add: ip_trace_def js_space_def)

lemma fetch_found:
  assumes "br_trace b = Inr ip_trace"
  shows "fetchExternalIp b = ([ConsoleLog ''fetchExternalIp: Fetching...'', NetFetch, ConsoleLog ''fetchExternalIp: Determined''], Inr [49, 46, 50, 46, 51, 46, 52])"
  using assms by (simp add: fetchExternalIp_def bind_def perform_def lift_def ret_def exec_ip_trace)

lemma fetch_offline:
  "fetchExternalIp offline_bridge =
     ([ConsoleLog ''fetchExternalIp: Fetching...'', NetFetch], Inl (Throw (Thrown ''network unreachable'')))"
  by (simp add: fetchExternalIp_def bind_def perform_def lift_def offline_bridge_def)

lemma lookup_found:
  assumes "br_trace b = Inr ip_trace"
  shows "computeExternalIp b None = (([ConsoleLog ''fetchExternalIp: Fetching...'', NetFetch, ConsoleLog ''fetchExternalIp: Determined''], Inr [49, 46, 50, 46, 51, 46, 52]), Some [49, 46, 50, 46, 51, 46, 52])"
  by (simp add: computeExternalIp_def memoize_def fetch_found [OF assms])

lemma lookup_offline:
  "computeExternalIp offline_bridge None =
     (([ConsoleLog ''fetchExternalIp: Fetching...'', NetFetch], Inl (Throw (Thrown ''network unreachable''))),
      None)"
  by (simp add: computeExternalIp_def memoize_def fetch_offline)

lemma trace_plain: "br_trace plain_bridge = Inr ip_trace"
  by (simp add: plain_bridge_def)

lemma trace_socket: "br_trace (socket_bridge st) = Inr ip_trace"
  by (simp add: socket_bridge_def plain_bridge_def)

lemma trace_translating: "br_trace (translating_bridge dr) = Inr ip_trace"
  by (simp add: translating_bridge_def plain_bridge_def)

section \<open>The claims\<close>

text \<open>
  C9, as stated, fails: a script configured with local port 0 is not bound to port 0. The
  listener binds to 8080 there, because \<open>||\<close> takes the default for every falsy value.
\<close>

theorem listen_port_zero:
  "localPort demo_inprocess = Some 0 \<and> listen demo_inprocess = 8080"
  by (simp add: demo_inprocess_def listen_def port_def)

text \<open>
  C9, amended: the listener binds to the script's configured local port when that port is not
  zero, and to port 8080 when no local port is configured.
\<close>

theorem listen_port_configured:
  "(localPort s = Some p \<longrightarrow> p \<noteq> 0 \<longrightarrow> listen s = p) \<and> (localPort s = None \<longrightarrow> listen s = 8080)"
  by (simp add: listen_def port_def)

theorem listen_port_configured_witness:
  "localPort demo_module = Some 3000 \<and> (3000::int) \<noteq> 0 \<and> listen demo_module = 3000
   \<and> localPort demo_script = None \<and> listen demo_script = 8080"
  using listen_port_configured [of demo_module 3000] listen_port_configured [of demo_script 0]
  by (simp add: demo_module_def demo_script_def)

text \<open>
  C10, as stated, fails: for a script that runs in-process, cli.ts neither compiles a path
  ending with \<open>.ts\<close> nor reads any other path as raw bytes, and it runs nothing itself; it
  only starts the in-process executor with the path and the kind.
\<close>

theorem in_process_script_not_compiled:
  "runInProcess demo_inprocess \<and> endsWith (path demo_inprocess) ''.ts''
   \<and> fst (createLocalRequestServer ok_host demo_inprocess) = [StartExecution ''worker.ts'' Module]
   \<and> \<not> list_ex computes_or_runs (fst (createLocalRequestServer ok_host demo_inprocess))
   \<and> runInProcess (demo_inprocess\<lparr>path := ''worker.js''\<rparr>)
   \<and> \<not> endsWith (path (demo_inprocess\<lparr>path := ''worker.js''\<rparr>)) ''.ts''
   \<and> fst (createLocalRequestServer ok_host (demo_inprocess\<lparr>path := ''worker.js''\<rparr>)) =
       [StartExecution ''worker.js'' Script]"
  by (simp add: createLocalRequestServer_def runInProcess_def scriptType_of_def endsWith_def
      demo_inprocess_def ok_host_def bind_def perform_def lift_def ret_def)

text \<open>
  C10, amended: the script kind passed to the executor is derived from the file path, not from
  a declared configuration field (two scripts with the same path get the same kind, whatever
  their other fields): \<open>module\<close> when the path ends with \<open>.ts\<close>, \<open>script\<close> otherwise. When the
  script does not run in-process and the worker manager has started, a path ending with \<open>.ts\<close>
  is compiled (\<open>Deno.emit\<close>) and its encoded bundle is run as a \<open>module\<close> worker, and every
  other path is read as raw bytes, which are run as a classic \<open>script\<close>. When the script runs
  in-process, cli.ts neither compiles nor reads the file: all it does is start the in-process
  executor with the path and the kind so derived.
\<close>

theorem script_kind_from_path:
  "(path s = path s' \<longrightarrow> scriptType_of s = scriptType_of s')
   \<and> (runInProcess s \<longrightarrow>
        fst (createLocalRequestServer h s) =
          [StartExecution (path s) (if endsWith (path s) ''.ts'' then Module else Script)])
   \<and> (\<not> runInProcess s \<longrightarrow> hst_managerStart h = Inr () \<longrightarrow> endsWith (path s) ''.ts'' \<longrightarrow>
        hst_emit h (path s) = Inr files \<longrightarrow>
        take 6 (fst (createLocalRequestServer h s)) =
          [StartManager, ConsoleLog (''runScript: '' @ path s), Emit (path s), ConsoleLog ''result'',
           ConsoleLog (''Compiled '' @ path s @ '' into module contents''),
           Run (hst_encode h (files ''deno:///bundle.js'')) Module])
   \<and> (\<not> runInProcess s \<longrightarrow> hst_managerStart h = Inr () \<longrightarrow> \<not> endsWith (path s) ''.ts'' \<longrightarrow>
        hst_readFile h (path s) = Inr contents \<longrightarrow>
        take 4 (fst (createLocalRequestServer h s)) =
          [StartManager, ConsoleLog (''runScript: '' @ path s), ReadFile (path s), Run contents Script])"
proof (intro conjI impI)
  assume "path s = path s'"
  then show "scriptType_of s = scriptType_of s'" by (simp add: scriptType_of_def)
next
  assume "runInProcess s"
  then show "fst (createLocalRequestServer h s) =
          [StartExecution (path s) (if endsWith (path s) ''.ts'' then Module else Script)]"
    by (simp add: createLocalRequestServer_def scriptType_of_def bind_def perform_def lift_def
        ret_def split: sum.splits)
next
  assume a: "\<not> runInProcess s" "hst_managerStart h = Inr ()" "endsWith (path s) ''.ts''"
    "hst_emit h (path s) = Inr files"
  then have c: "computeScriptContents h (path s) Module =
      ([Emit (path s), ConsoleLog ''result'',
        ConsoleLog (''Compiled '' @ path s @ '' into module contents'')],
       Inr (hst_encode h (files ''deno:///bundle.js'')))"
    by (simp add: computeScriptContents_def bind_def perform_def lift_def ret_def)
  have "\<exists>es v. runScript h s Module =
      (ConsoleLog (''runScript: '' @ path s) # Emit (path s) # ConsoleLog ''result'' #
        ConsoleLog (''Compiled '' @ path s @ '' into module contents'') #
        Run (hst_encode h (files ''deno:///bundle.js'')) Module # es, v)"
    by (cases "hst_run h (hst_encode h (files ''deno:///bundle.js'')) Module")
       (simp_all add: runScript_def c bind_def perform_def lift_def try_catch_def exit_def)
  then obtain es v where r: "runScript h s Module =
      (ConsoleLog (''runScript: '' @ path s) # Emit (path s) # ConsoleLog ''result'' #
        ConsoleLog (''Compiled '' @ path s @ '' into module contents'') #
        Run (hst_encode h (files ''deno:///bundle.js'')) Module # es, v)" by blast
  show "take 6 (fst (createLocalRequestServer h s)) =
          [StartManager, ConsoleLog (''runScript: '' @ path s), Emit (path s), ConsoleLog ''result'',
           ConsoleLog (''Compiled '' @ path s @ '' into module contents''),
           Run (hst_encode h (files ''deno:///bundle.js'')) Module]"
    using a r
    by (cases v) (simp_all add: createLocalRequestServer_def scriptType_of_def bind_def perform_def
        lift_def ret_def)
next
  assume a: "\<not> runInProcess s" "hst_managerStart h = Inr ()" "\<not> endsWith (path s) ''.ts''"
    "hst_readFile h (path s) = Inr contents"
  then have c: "computeScriptContents h (path s) Script = ([ReadFile (path s)], Inr contents)"
    by (simp add: computeScriptContents_def bind_def perform_def lift_def)
  have "\<exists>es v. runScript h s Script =
      (ConsoleLog (''runScript: '' @ path s) # ReadFile (path s) # Run contents Script # es, v)"
    by (cases "hst_run h contents Script")
       (simp_all add: runScript_def c bind_def perform_def lift_def try_catch_def exit_def)
  then obtain es v where r: "runScript h s Script =
      (ConsoleLog (''runScript: '' @ path s) # ReadFile (path s) # Run contents Script # es, v)"
    by blast
  show "take 4 (fst (createLocalRequestServer h s)) =
          [StartManager, ConsoleLog (''runScript: '' @ path s), ReadFile (path s), Run contents Script]"
    using a r
    by (cases v) (simp_all add: createLocalRequestServer_def scriptType_of_def bind_def perform_def
        lift_def ret_def)
qed

theorem script_kind_from_path_witness:
  "runInProcess demo_inprocess
   \<and> fst (createLocalRequestServer ok_host demo_inprocess) = [StartExecution ''worker.ts'' Module]
   \<and> take 6 (fst (createLocalRequestServer ok_host demo_module)) =
       [StartManager, ConsoleLog ''runScript: worker.ts'', Emit ''worker.ts'', ConsoleLog ''result'',
        ConsoleLog ''Compiled worker.ts into module contents'', Run [120] Module]
   \<and> take 4 (fst (createLocalRequestServer ok_host demo_script)) =
       [StartManager, ConsoleLog ''runScript: worker.js'', ReadFile ''worker.js'', Run [1, 2, 3] Script]
   \<and> scriptType_of demo_module = scriptType_of demo_inprocess"
proof -
  have inproc: "runInProcess demo_inprocess" "endsWith (path demo_inprocess) ''.ts''"
    by (simp_all add: runInProcess_def demo_inprocess_def endsWith_def)
  have modu: "\<not> runInProcess demo_module" "hst_managerStart ok_host = Inr ()"
    "endsWith (path demo_module) ''.ts''"
    "hst_emit ok_host (path demo_module) = Inr [''deno:///bundle.js'' \<mapsto> ''x'']"
    by (simp_all add: runInProcess_def demo_module_def endsWith_def ok_host_def)
  have scr: "\<not> runInProcess demo_script" "\<not> endsWith (path demo_script) ''.ts''"
    "hst_readFile ok_host (path demo_script) = Inr [1, 2, 3]"
    by (simp_all add: runInProcess_def demo_script_def endsWith_def ok_host_def)
  have same: "path demo_module = path demo_inprocess"
    by (simp add: demo_module_def demo_inprocess_def)
  have enc: "hst_encode ok_host ([''deno:///bundle.js'' \<mapsto> ''x''] ''deno:///bundle.js'') = [120]"
    by (simp add: ok_host_def)
  show ?thesis
    using script_kind_from_path [of demo_inprocess demo_inprocess ok_host Map.empty "[]"] inproc
      script_kind_from_path [of demo_module demo_inprocess ok_host "[''deno:///bundle.js'' \<mapsto> ''x'']" "[]"]
      modu same enc
      script_kind_from_path [of demo_script demo_script ok_host Map.empty "[1, 2, 3]"] scr
    by (simp add: demo_module_def demo_script_def demo_inprocess_def)
qed

text \<open>
  C1, as stated, fails: after a modification that the executor refuses to run, the timer's
  call of \<open>runScript\<close> logs the failure and ends in \<open>Deno.exit(1)\<close>; the process has ended.
\<close>

theorem reload_run_failure_ends_process:
  "createLocalRequestServer ok_host demo_script =
     ([StartManager, ConsoleLog ''runScript: worker.js'', ReadFile ''worker.js'', Run [1, 2, 3] Script],
      Inr started)
   \<and> pr_ended (watch_run demo_script ok_host [modify_event ''worker.js'' 10 broken_host] 1000 started)
   \<and> map snd (pr_reloads (watch_run demo_script ok_host [modify_event ''worker.js'' 10 broken_host] 1000 started)) =
       [([ConsoleLog ''runScript: worker.js'', ReadFile ''worker.js'', Run [4, 5] Script,
          ConsoleError ''Error running script'' (Thrown ''SyntaxError'')], Inl (Exit 1))]"
  by (simp add: createLocalRequestServer_def runInProcess_def scriptType_of_def endsWith_def
      demo_script_def ok_host_def broken_host_def started_def modify_event_def
      runScript_def computeScriptContents_def bind_def perform_def lift_def ret_def exit_def
      try_catch_def fire_due_def fire_def on_event_def clearTimeout_def setTimeout_def)

text \<open>
  C1, amended: for every reload triggered by a file-change event, a failure of the executor to
  run the new script contents is logged (\<open>Error running script\<close>) and is fatal: \<open>runScript\<close>
  then calls \<open>Deno.exit(1)\<close>, so the process ends and no instance keeps answering requests.
\<close>

theorem reload_run_failure_is_fatal:
  assumes "\<not> pr_ended p"
    and "computeScriptContents h (path s) (scriptType_of s) = (es, Inr c)"
    and "hst_run h c (scriptType_of s) = Inl e"
  shows "fire h s due p =
           p\<lparr>pr_reloads := pr_reloads p @
                [(due, (ConsoleLog (''runScript: '' @ path s) # es @
                          [Run c (scriptType_of s), ConsoleError ''Error running script'' e],
                        Inl (Exit 1)))],
             pr_ended := True\<rparr>"
  using assms(1) runScript_run_failure [OF assms(2,3)]
  by (simp add: fire_def)

theorem reload_run_failure_is_fatal_witness:
  "\<not> pr_ended started
   \<and> computeScriptContents broken_host (path demo_script) (scriptType_of demo_script) =
       ([ReadFile ''worker.js''], Inr [4, 5])
   \<and> hst_run broken_host [4, 5] (scriptType_of demo_script) = Inl (Thrown ''SyntaxError'')
   \<and> fire broken_host demo_script 510 started =
       started\<lparr>pr_reloads :=
                 [(510, ([ConsoleLog ''runScript: worker.js'', ReadFile ''worker.js'', Run [4, 5] Script,
                          ConsoleError ''Error running script'' (Thrown ''SyntaxError'')],
                         Inl (Exit 1)))],
               pr_ended := True\<rparr>"
proof -
  have a: "\<not> pr_ended started" by (simp add: started_def)
  have ty: "scriptType_of demo_script = Script"
    by (simp add: scriptType_of_def endsWith_def demo_script_def)
  have b: "computeScriptContents broken_host (path demo_script) (scriptType_of demo_script) =
       ([ReadFile ''worker.js''], Inr [4, 5])"
    unfolding ty
    by (simp add: computeScriptContents_def bind_def perform_def lift_def broken_host_def
        ok_host_def demo_script_def)
  have c: "hst_run broken_host [4, 5] (scriptType_of demo_script) = Inl (Thrown ''SyntaxError'')"
    by (simp add: broken_host_def ok_host_def)
  have p: "path demo_script = ''worker.js''" by (simp add: demo_script_def)
  have r: "pr_reloads started = []" by (simp add: started_def)
  show ?thesis
    using reload_run_failure_is_fatal [OF a b c, of 510] a b c
    by (simp add: ty p r)
qed

text \<open>
  C4: when the script does not run in-process and the request server has been created, a
  burst of one or more \<open>modify\<close> events naming the script path, each less than 500 ms after
  the one before it, followed by at least 500 ms of quiet, triggers exactly one call of
  \<open>runScript\<close>: it is made 500 ms after the last event, on the host as it is after the last
  event. As many timers were scheduled as there were events, and none is left pending.
\<close>

theorem debounce_single_reload:
  assumes "createLocalRequestServer h0 s = (es0, Inr p)" and "\<not> runInProcess s"
    and "\<forall>e\<in>set (ev # evs). ev_kind e = ''modify'' \<and> path s \<in> set (ev_paths e)"
    and "rapid (ev_time ev) evs"
    and "ev_time (last (ev # evs)) + 500 \<le> horizon"
  shows "pr_reloads (watch_run s h0 (ev # evs) horizon p) =
           [(ev_time (last (ev # evs)) + 500, runScript (ev_host (last (ev # evs))) s (scriptType_of s))]
         \<and> pr_timers (watch_run s h0 (ev # evs) horizon p) = []
         \<and> pr_nextTimer (watch_run s h0 (ev # evs) horizon p) = length (ev # evs)"
proof -
  from assms(1,2) have p: "p = \<lparr>pr_server = WorkerManager, pr_watching = True, pr_timeoutId = None,
      pr_timers = [], pr_nextTimer = 0, pr_reloads = [], pr_ended = False\<rparr>"
    by (auto simp: createLocalRequestServer_def bind_def perform_def lift_def ret_def Let_def
        split: sum.splits prod.splits)
  let ?q = "p\<lparr>pr_timers := [(0, ev_time ev + 500)], pr_nextTimer := Suc 0, pr_timeoutId := Some 0\<rparr>"
  have quiet: "fire_due h0 s (ev_time ev) p = p" by (simp add: fire_due_none p)
  have step: "on_event s (ev_time ev) ev p = ?q"
    using assms(3) by (simp add: on_event_first p)
  have run: "watch_run s h0 (ev # evs) horizon p = watch_run s (ev_host ev) evs horizon ?q"
    by (simp add: quiet step)
  have lt: "last_time (ev_time ev) evs = ev_time (last (ev # evs))"
    and lh: "last_host (ev_host ev) evs = ev_host (last (ev # evs))"
    by (simp_all add: last_time_def last_host_def)
  have "pr_reloads (watch_run s (ev_host ev) evs horizon ?q) =
           pr_reloads ?q @ [(last_time (ev_time ev) evs + 500, runScript (last_host (ev_host ev) evs) s (scriptType_of s))]
         \<and> pr_timers (watch_run s (ev_host ev) evs horizon ?q) = []
         \<and> pr_nextTimer (watch_run s (ev_host ev) evs horizon ?q) = pr_nextTimer ?q + length evs"
  proof (rule burst_pending)
    show "pr_watching ?q" by (simp add: p)
    show "\<not> pr_ended ?q" by (simp add: p)
    show "pr_timers ?q = [(0, ev_time ev + 500)]" by simp
    show "pr_timeoutId ?q = Some 0" by simp
    show "\<forall>e\<in>set evs. ev_kind e = ''modify'' \<and> path s \<in> set (ev_paths e)" using assms(3) by simp
    show "rapid (ev_time ev) evs" by (rule assms(4))
    show "last_time (ev_time ev) evs + 500 \<le> horizon" using assms(5) lt by simp
  qed
  then show ?thesis unfolding run lt lh by (simp add: p del: last.simps)
qed

theorem debounce_single_reload_witness:
  "createLocalRequestServer ok_host demo_script =
     ([StartManager, ConsoleLog ''runScript: worker.js'', ReadFile ''worker.js'', Run [1, 2, 3] Script],
      Inr started)
   \<and> \<not> runInProcess demo_script
   \<and> rapid 10 [modify_event ''worker.js'' 20 ok_host, modify_event ''worker.js'' 519 broken_host]
   \<and> pr_reloads (watch_run demo_script ok_host
        [modify_event ''worker.js'' 10 ok_host, modify_event ''worker.js'' 20 ok_host,
         modify_event ''worker.js'' 519 broken_host] 1019 started) =
       [(1019, runScript broken_host demo_script Script)]
   \<and> pr_nextTimer (watch_run demo_script ok_host
        [modify_event ''worker.js'' 10 ok_host, modify_event ''worker.js'' 20 ok_host,
         modify_event ''worker.js'' 519 broken_host] 1019 started) = 3"
proof -
  have a: "createLocalRequestServer ok_host demo_script =
     ([StartManager, ConsoleLog ''runScript: worker.js'', ReadFile ''worker.js'', Run [1, 2, 3] Script],
      Inr started)"
    by (simp add: createLocalRequestServer_def runInProcess_def scriptType_of_def endsWith_def
        demo_script_def ok_host_def started_def runScript_def computeScriptContents_def bind_def
        perform_def lift_def ret_def try_catch_def)
  have b: "\<not> runInProcess demo_script" by (simp add: runInProcess_def demo_script_def)
  have c: "\<forall>e\<in>set (modify_event ''worker.js'' 10 ok_host #
              [modify_event ''worker.js'' 20 ok_host, modify_event ''worker.js'' 519 broken_host]).
            ev_kind e = ''modify'' \<and> path demo_script \<in> set (ev_paths e)"
    by (simp add: modify_event_def demo_script_def)
  have d: "rapid (ev_time (modify_event ''worker.js'' 10 ok_host))
             [modify_event ''worker.js'' 20 ok_host, modify_event ''worker.js'' 519 broken_host]"
    by (simp add: modify_event_def)
  have e: "ev_time (last (modify_event ''worker.js'' 10 ok_host #
              [modify_event ''worker.js'' 20 ok_host, modify_event ''worker.js'' 519 broken_host])) + 500
            \<le> 1019"
    by (simp add: modify_event_def)
  have ty: "scriptType_of demo_script = Script"
    by (simp add: scriptType_of_def endsWith_def demo_script_def)
  show ?thesis
    using debounce_single_reload [OF a b c d e] a b d
    by (simp add: modify_event_def ty)
qed

text \<open>
  C8, as stated, fails: in-process, no watcher is started, and a modification of the script
  file triggers no reload.
\<close>

theorem in_process_modify_no_reload:
  "runInProcess demo_inprocess
   \<and> createLocalRequestServer ok_host demo_inprocess =
       ([StartExecution ''worker.ts'' Module], Inr started_inprocess)
   \<and> pr_reloads (watch_run demo_inprocess ok_host [modify_event ''worker.ts'' 10 broken_host] 1000
        started_inprocess) = []
   \<and> pr_server (watch_run demo_inprocess ok_host [modify_event ''worker.ts'' 10 broken_host] 1000
        started_inprocess) = WorkerExecution ''worker.ts'' Module"
  by (simp add: createLocalRequestServer_def runInProcess_def scriptType_of_def endsWith_def
      demo_inprocess_def ok_host_def started_inprocess_def modify_event_def
      bind_def perform_def lift_def ret_def fire_due_def on_event_def)

text \<open>
  C8, amended: when the script runs in in-process execution mode, cli.ts starts no watcher and
  no restart timer: whatever events the script file undergoes, no reload is triggered, and the
  request server stays the executor that was started at start-up with the script's path.
\<close>

theorem in_process_never_reloads:
  assumes "createLocalRequestServer h s = (es, Inr p)" and "runInProcess s"
  shows "watch_run s h evs horizon p = p \<and> \<not> pr_watching p \<and> pr_timers p = [] \<and> pr_reloads p = []
       \<and> pr_server p = WorkerExecution (path s) (scriptType_of s)"
proof -
  from assms have p: "p = \<lparr>pr_server = WorkerExecution (path s) (scriptType_of s), pr_watching = False,
      pr_timeoutId = None, pr_timers = [], pr_nextTimer = 0, pr_reloads = [], pr_ended = False\<rparr>"
    by (auto simp: createLocalRequestServer_def bind_def perform_def lift_def ret_def Let_def
        split: sum.splits prod.splits)
  then have "watch_run s h evs horizon p = p" by (intro not_watching_idle) simp_all
  with p show ?thesis by simp
qed

theorem in_process_never_reloads_witness:
  "createLocalRequestServer ok_host demo_inprocess =
       ([StartExecution ''worker.ts'' Module], Inr started_inprocess)
   \<and> runInProcess demo_inprocess
   \<and> watch_run demo_inprocess ok_host
        [modify_event ''worker.ts'' 10 broken_host, modify_event ''worker.ts'' 900 ok_host] 2000
        started_inprocess = started_inprocess
   \<and> pr_reloads started_inprocess = []"
proof -
  have a: "createLocalRequestServer ok_host demo_inprocess =
       ([StartExecution ''worker.ts'' Module], Inr started_inprocess)"
    by (simp add: createLocalRequestServer_def runInProcess_def scriptType_of_def endsWith_def
        demo_inprocess_def ok_host_def started_inprocess_def bind_def perform_def lift_def ret_def)
  have b: "runInProcess demo_inprocess" by (simp add: runInProcess_def demo_inprocess_def)
  show ?thesis
    using in_process_never_reloads [OF a b,
        of "[modify_event ''worker.ts'' 10 broken_host, modify_event ''worker.ts'' 900 ok_host]" 2000]
      a b
    by (simp del: watch_run.simps)
qed

text \<open>
  C5, as stated, fails: a request whose Upgrade header has the empty value, which is not
  \<open>websocket\<close>, is taken for a request without the header, and the executor is invoked.
\<close>

theorem empty_upgrade_reaches_executor:
  "headers_get (req_headers (get_request [(''upgrade'', [])])) ''upgrade'' = Some []
   \<and> list_ex is_ExecutorFetch
        (fst (fst (handle_request plain_bridge demo_script (get_request [(''upgrade'', [])]) None)))"
proof -
  have h: "headers_get (req_headers (get_request [(''upgrade'', [])])) ''upgrade'' = Some []"
    by (simp add: headers_get_def get_request_def)
  have s: "serve plain_bridge demo_script (get_request [(''upgrade'', [])]) [49, 46, 50, 46, 51, 46, 52] =
      ([ExecutorFetch (get_request [(''upgrade'', [])]) \<lparr>cfConnectingIp = [49, 46, 50, 46, 51, 46, 52], hostname = None\<rparr>,
        RespondWith (Response ''hello'' 200)], Inr ())"
    by (simp add: serve_def upgrade_of_def h bind_def perform_def lift_def ret_def try_catch_def
        respond_def plain_bridge_def demo_script_def)
  show ?thesis
    using h
    by (simp add: handle_request_served [OF lookup_found [OF trace_plain]] bind_pair s try_catch_def)
qed

text \<open>
  C5, amended: for every incoming request carrying an Upgrade header whose value is not empty
  and not \<open>websocket\<close>, the bridge rejects the request with an error (logged as
  \<open>Error servicing request\<close>) before invoking the executor, without ever performing the
  native WebSocket upgrade handshake and without replying; when the external IP is known the
  error is \<open>Unsupported upgrade\<close> with the header's value.
\<close>

theorem unsupported_upgrade_rejected:
  assumes "headers_get (req_headers r) ''upgrade'' = Some v" and "v \<noteq> []" and "v \<noteq> ''websocket''"
  shows "\<not> list_ex is_ExecutorFetch (fst (fst (handle_request b s r cached)))
       \<and> \<not> list_ex is_UpgradeWebSocket (fst (fst (handle_request b s r cached)))
       \<and> \<not> list_ex is_RespondWith (fst (fst (handle_request b s r cached)))
       \<and> (\<exists>e. last (fst (fst (handle_request b s r cached))) = ConsoleError ''Error servicing request'' e)
       \<and> (\<forall>es ip c'. computeExternalIp b cached = ((es, Inr ip), c') \<longrightarrow>
            handle_request b s r cached =
              ((es @ [ConsoleError ''Error servicing request'' (UnsupportedUpgrade v)], Inr ()), c'))"
proof (cases rule: lookup_cases [of b cached])
  case (failed es e c')
  from lookup_effects [of b cached] failed have "list_all lookup_effect es" by simp
  then show ?thesis
    using failed lookup_not_fetch [of es] lookup_not_upgrade [of es] lookup_not_respond [of es]
    by (simp add: handle_request_lookup_failed)
next
  case (found es ip c')
  from lookup_effects [of b cached] found have "list_all lookup_effect es" by simp
  moreover from assms have "serve b s r ip = throw (UnsupportedUpgrade v)"
    by (simp add: serve_def upgrade_of_def)
  ultimately show ?thesis
    using found lookup_not_fetch [of es] lookup_not_upgrade [of es] lookup_not_respond [of es]
    by (simp add: handle_request_served bind_pair throw_def try_catch_def perform_def)
qed

theorem unsupported_upgrade_rejected_witness:
  "headers_get (req_headers (get_request [(''upgrade'', ''gzip'')])) ''upgrade'' = Some ''gzip''
   \<and> handle_request plain_bridge demo_script (get_request [(''upgrade'', ''gzip'')]) None =
       (([ConsoleLog ''fetchExternalIp: Fetching...'', NetFetch, ConsoleLog ''fetchExternalIp: Determined''] @ [ConsoleError ''Error servicing request'' (UnsupportedUpgrade ''gzip'')], Inr ()),
        Some [49, 46, 50, 46, 51, 46, 52])
   \<and> \<not> list_ex is_ExecutorFetch
        (fst (fst (handle_request plain_bridge demo_script (get_request [(''upgrade'', ''gzip'')]) None)))
   \<and> \<not> list_ex is_UpgradeWebSocket
        (fst (fst (handle_request plain_bridge demo_script (get_request [(''upgrade'', ''gzip'')]) None)))"
proof -
  have a: "headers_get (req_headers (get_request [(''upgrade'', ''gzip'')])) ''upgrade'' = Some ''gzip''"
    by (simp add: headers_get_def get_request_def)
  have b: "''gzip'' \<noteq> []" and c: "''gzip'' \<noteq> ''websocket''" by simp_all
  show ?thesis
    using unsupported_upgrade_rejected [OF a b c, of plain_bridge demo_script None] a
      lookup_found [OF trace_plain]
    by simp
qed

text \<open>
  C6: for every WebSocket upgrade request for which the external IP is known, the native
  handshake has succeeded and the executor returns a \<open>DenoflareResponse\<close> whose \<open>init\<close> carries
  a WebSocket: when the status is not 101 (or is absent), the request fails with the error
  \<open>Bad response status\<close>, which is logged, the server socket is not tied to the real socket and
  nothing is replied; when the status is 101 and the response has a server socket, that socket
  is tied to the real one and the pending response is replied.
\<close>

theorem deferred_status_checked:
  assumes "upgrade_of r = Some ''websocket''"
    and "computeExternalIp b cached = ((es, Inr ip), c')"
    and "br_upgradeWebSocket b r = Inr (websocket, response)"
    and "br_fetch b r \<lparr>cfConnectingIp = ip, hostname = localHostname s\<rparr> = Inr (Denoflare dr)"
    and "init dr = Some i" and "init_webSocket i = Some w"
  shows "(init_status i \<noteq> Some 101 \<longrightarrow>
            handle_request b s r cached =
              ((es @ [UpgradeWebSocket r,
                      ExecutorFetch r \<lparr>cfConnectingIp = ip, hostname = localHostname s\<rparr>,
                      ConsoleError ''Error servicing request'' (BadResponseStatus (init_status i))],
                Inr ()), c')
            \<and> \<not> list_ex is_SetRealWebsocket (fst (fst (handle_request b s r cached)))
            \<and> \<not> list_ex is_RespondWith (fst (fst (handle_request b s r cached))))
       \<and> (init_status i = Some 101 \<longrightarrow> br_getDenoflareServerWebSocket b dr = Some sws \<longrightarrow>
            take (length es + 4) (fst (fst (handle_request b s r cached))) =
              es @ [UpgradeWebSocket r,
                    ExecutorFetch r \<lparr>cfConnectingIp = ip, hostname = localHostname s\<rparr>,
                    SetRealWebsocket sws websocket, RespondWith response])"
proof -
  from lookup_effects [of b cached] assms(2) have le: "list_all lookup_effect es" by simp
  have bad: "init_status i \<noteq> Some 101 \<Longrightarrow>
      serve b s r ip = ([UpgradeWebSocket r,
                      ExecutorFetch r \<lparr>cfConnectingIp = ip, hostname = localHostname s\<rparr>],
                      Inl (Throw (BadResponseStatus (init_status i))))"
    using assms by (simp add: serve_def bind_perform bind_lift wire_def bind_throw)
  have good: "init_status i = Some 101 \<Longrightarrow> br_getDenoflareServerWebSocket b dr = Some sws \<Longrightarrow>
      serve b s r ip = (case respond b response of (es', x) \<Rightarrow>
         ([UpgradeWebSocket r,
           ExecutorFetch r \<lparr>cfConnectingIp = ip, hostname = localHostname s\<rparr>,
           SetRealWebsocket sws websocket] @ es', x))"
    using assms by (simp add: serve_def bind_perform bind_lift wire_def split: prod.splits)
  have resp: "\<exists>es'. respond b response = (RespondWith response # es', Inr ())"
    by (rule respond_shape)
  show ?thesis
  proof (intro conjI impI)
    assume ne: "init_status i \<noteq> Some 101"
    show eq: "handle_request b s r cached =
              ((es @ [UpgradeWebSocket r,
                      ExecutorFetch r \<lparr>cfConnectingIp = ip, hostname = localHostname s\<rparr>,
                      ConsoleError ''Error servicing request'' (BadResponseStatus (init_status i))],
                Inr ()), c')"
      using assms(2) bad [OF ne]
      by (simp add: handle_request_served bind_pair try_catch_def perform_def)
    show "\<not> list_ex is_SetRealWebsocket (fst (fst (handle_request b s r cached)))"
      using le lookup_not_wire [of es] by (simp add: eq)
    show "\<not> list_ex is_RespondWith (fst (fst (handle_request b s r cached)))"
      using le lookup_not_respond [of es] by (simp add: eq)
  next
    assume ok: "init_status i = Some 101" and ws: "br_getDenoflareServerWebSocket b dr = Some sws"
    from resp obtain es' where r: "respond b response = (RespondWith response # es', Inr ())" ..
    show "take (length es + 4) (fst (fst (handle_request b s r cached))) =
              es @ [UpgradeWebSocket r,
                    ExecutorFetch r \<lparr>cfConnectingIp = ip, hostname = localHostname s\<rparr>,
                    SetRealWebsocket sws websocket, RespondWith response]"
      using assms(2) good [OF ok ws] r
      by (simp add: handle_request_served bind_pair try_catch_def)
  qed
qed

theorem deferred_status_checked_witness:
  "upgrade_of (get_request [(''upgrade'', ''websocket'')]) = Some ''websocket''
   \<and> handle_request (socket_bridge (Some 200)) demo_script (get_request [(''upgrade'', ''websocket'')]) None =
       (([ConsoleLog ''fetchExternalIp: Fetching...'', NetFetch, ConsoleLog ''fetchExternalIp: Determined''] @
         [UpgradeWebSocket (get_request [(''upgrade'', ''websocket'')]),
          ExecutorFetch (get_request [(''upgrade'', ''websocket'')])
            \<lparr>cfConnectingIp = [49, 46, 50, 46, 51, 46, 52], hostname = None\<rparr>,
          ConsoleError ''Error servicing request'' (BadResponseStatus (Some 200))], Inr ()),
        Some [49, 46, 50, 46, 51, 46, 52])
   \<and> take 7 (fst (fst (handle_request (socket_bridge (Some 101)) demo_script
        (get_request [(''upgrade'', ''websocket'')]) None))) =
       [ConsoleLog ''fetchExternalIp: Fetching...'', NetFetch, ConsoleLog ''fetchExternalIp: Determined''] @
         [UpgradeWebSocket (get_request [(''upgrade'', ''websocket'')]),
          ExecutorFetch (get_request [(''upgrade'', ''websocket'')])
            \<lparr>cfConnectingIp = [49, 46, 50, 46, 51, 46, 52], hostname = None\<rparr>,
          SetRealWebsocket 3 7, RespondWith (Response [] 101)]"
proof -
  let ?r = "get_request [(''upgrade'', ''websocket'')]"
  let ?i = "\<lambda>st. \<lparr>init_status = st, init_webSocket = Some 3\<rparr>"
  have a: "upgrade_of ?r = Some ''websocket''"
    by (simp add: upgrade_of_def headers_get_def get_request_def)
  have h: "localHostname demo_script = None" by (simp add: demo_script_def)
  have u: "br_upgradeWebSocket (socket_bridge st) ?r = Inr (7, Response [] 101)" for st
    by (simp add: socket_bridge_def plain_bridge_def)
  have f: "br_fetch (socket_bridge st) ?r \<lparr>cfConnectingIp = [49, 46, 50, 46, 51, 46, 52], hostname = localHostname demo_script\<rparr>
             = Inr (Denoflare (socket_response st))" for st
    by (simp add: socket_bridge_def)
  have i: "init (socket_response st) = Some (?i st)" for st
    by (simp add: socket_response_def)
  have w: "init_webSocket (?i st) = Some 3" for st by simp
  have g: "br_getDenoflareServerWebSocket (socket_bridge (Some 101)) (socket_response (Some 101)) = Some 3"
    by (simp add: socket_bridge_def plain_bridge_def socket_response_def)
  show ?thesis
    using deferred_status_checked [OF a lookup_found [OF trace_socket] u f i w, of "Some 200" 3]
      deferred_status_checked [OF a lookup_found [OF trace_socket] u f i w, of "Some 101" 3]
      a g h
    by simp
qed

text \<open>
  C2 (with \<open>toRealResponse\<close> as the specification describes it): for every request without an
  Upgrade header for which the external IP is known, if the executor returns a deferred
  (WebSocket-carrying) response, the request ends in the error of the translation, which is
  logged, and nothing is replied; if it returns a response that is not deferred, its native
  translation is replied. The translation yields a native response only for a response that
  is not deferred.
\<close>

theorem deferred_outside_upgrade:
  assumes "headers_get (req_headers r) ''upgrade'' = None"
    and "computeExternalIp b cached = ((es, Inr ip), c')"
    and "br_fetch b r \<lparr>cfConnectingIp = ip, hostname = localHostname s\<rparr> = Inr (Denoflare dr)"
    and "br_toRealResponse b = toRealResponse native_of"
  shows "(deferred dr \<longrightarrow>
            handle_request b s r cached =
              ((es @ [ExecutorFetch r \<lparr>cfConnectingIp = ip, hostname = localHostname s\<rparr>,
                      ConsoleError ''Error servicing request'' DeferredOutsideUpgrade],
                Inr ()), c')
            \<and> \<not> list_ex is_RespondWith (fst (fst (handle_request b s r cached))))
       \<and> (\<not> deferred dr \<longrightarrow>
            take (length es + 2) (fst (fst (handle_request b s r cached))) =
              es @ [ExecutorFetch r \<lparr>cfConnectingIp = ip, hostname = localHostname s\<rparr>,
                    RespondWith (native_of dr)])
       \<and> (\<forall>n. toRealResponse native_of dr = Inr n \<longrightarrow> \<not> deferred dr)"
proof -
  from lookup_effects [of b cached] assms(2) have le: "list_all lookup_effect es" by simp
  have up: "upgrade_of r = None" using assms(1) by (simp add: upgrade_of_def)
  have bad: "deferred dr \<Longrightarrow>
      serve b s r ip = ([ExecutorFetch r \<lparr>cfConnectingIp = ip, hostname = localHostname s\<rparr>],
                      Inl (Throw DeferredOutsideUpgrade))"
    using assms up by (simp add: serve_def bind_perform bind_lift toRealResponse_def)
  have good: "\<not> deferred dr \<Longrightarrow>
      serve b s r ip = (case respond b (native_of dr) of (es', x) \<Rightarrow>
         (ExecutorFetch r \<lparr>cfConnectingIp = ip, hostname = localHostname s\<rparr> # es', x))"
    using assms up by (simp add: serve_def bind_perform bind_lift toRealResponse_def)
  have resp: "\<exists>es'. respond b (native_of dr) = (RespondWith (native_of dr) # es', Inr ())"
    by (rule respond_shape)
  show ?thesis
  proof (intro conjI impI allI)
    assume d: "deferred dr"
    show eq: "handle_request b s r cached =
              ((es @ [ExecutorFetch r \<lparr>cfConnectingIp = ip, hostname = localHostname s\<rparr>,
                      ConsoleError ''Error servicing request'' DeferredOutsideUpgrade],
                Inr ()), c')"
      using assms(2) bad [OF d]
      by (simp add: handle_request_served bind_pair try_catch_def perform_def)
    show "\<not> list_ex is_RespondWith (fst (fst (handle_request b s r cached)))"
      using le lookup_not_respond [of es] by (simp add: eq)
  next
    assume nd: "\<not> deferred dr"
    from resp obtain es' where r: "respond b (native_of dr) = (RespondWith (native_of dr) # es', Inr ())" ..
    show "take (length es + 2) (fst (fst (handle_request b s r cached))) =
              es @ [ExecutorFetch r \<lparr>cfConnectingIp = ip, hostname = localHostname s\<rparr>,
                    RespondWith (native_of dr)]"
      using assms(2) good [OF nd] r
      by (simp add: handle_request_served bind_pair try_catch_def)
  next
    fix n assume "toRealResponse native_of dr = Inr n"
    then show "\<not> deferred dr" by (simp add: toRealResponse_def split: if_splits)
  qed
qed

theorem deferred_outside_upgrade_witness:
  "headers_get (req_headers (get_request [])) ''upgrade'' = None
   \<and> deferred (socket_response (Some 101))
   \<and> handle_request (translating_bridge (socket_response (Some 101))) demo_script (get_request []) None =
       (([ConsoleLog ''fetchExternalIp: Fetching...'', NetFetch, ConsoleLog ''fetchExternalIp: Determined''] @
         [ExecutorFetch (get_request []) \<lparr>cfConnectingIp = [49, 46, 50, 46, 51, 46, 52], hostname = None\<rparr>,
          ConsoleError ''Error servicing request'' DeferredOutsideUpgrade], Inr ()),
        Some [49, 46, 50, 46, 51, 46, 52])
   \<and> \<not> deferred body_response
   \<and> take 5 (fst (fst (handle_request (translating_bridge body_response) demo_script (get_request []) None))) =
       [ConsoleLog ''fetchExternalIp: Fetching...'', NetFetch, ConsoleLog ''fetchExternalIp: Determined''] @
         [ExecutorFetch (get_request []) \<lparr>cfConnectingIp = [49, 46, 50, 46, 51, 46, 52], hostname = None\<rparr>,
          RespondWith (Response ''hi'' 200)]"
proof -
  have a: "headers_get (req_headers (get_request [])) ''upgrade'' = None"
    by (simp add: headers_get_def get_request_def)
  have h: "localHostname demo_script = None" by (simp add: demo_script_def)
  have f: "br_fetch (translating_bridge dr) (get_request [])
             \<lparr>cfConnectingIp = [49, 46, 50, 46, 51, 46, 52], hostname = localHostname demo_script\<rparr> = Inr (Denoflare dr)" for dr
    by (simp add: translating_bridge_def)
  have t: "br_toRealResponse (translating_bridge dr) = toRealResponse plain_native" for dr
    by (simp add: translating_bridge_def)
  have d: "deferred (socket_response (Some 101))" by (simp add: deferred_def socket_response_def)
  have n: "\<not> deferred body_response" by (simp add: deferred_def body_response_def)
  have v: "plain_native body_response = Response ''hi'' 200"
    by (simp add: plain_native_def body_response_def)
  show ?thesis
    using deferred_outside_upgrade [OF a lookup_found [OF trace_translating] f t, of "socket_response (Some 101)"]
      deferred_outside_upgrade [OF a lookup_found [OF trace_translating] f t, of body_response]
      a d n h v
    by (simp add: eval_nat_numeral)
qed



text \<open>
  C3, as stated, fails: when the first fetch of the external IP fails, nothing is cached and
  the next request fetches again; two requests make two fetches.
\<close>

theorem failed_fetch_is_repeated:
  "count_list (concat (map fst (computeExternalIp_calls [offline_bridge, plain_bridge] None))) NetFetch = 2"
  by (simp add: lookup_offline lookup_found [OF trace_plain])

text \<open>
  C3, amended: for requests handled one after the other, every call of the memoized function
  before the first successful one makes a fetch of its own and fails with it; the first
  successful call stores its value, and every later call returns that value without any
  fetch, so at most one fetch succeeds per process lifetime. A call with a value cached
  returns it and leaves the cache as it is. A request can fail due to the IP lookup only if
  the very first fetch failed.
\<close>

theorem external_ip_memoized:
  assumes "\<forall>b\<in>set failing. \<exists>es a. fetchExternalIp b = (es, Inl a)"
  shows "computeExternalIp_calls failing None = map fetchExternalIp failing
       \<and> (fetchExternalIp b = (es, Inr ip) \<longrightarrow>
            computeExternalIp_calls (failing @ b # later) None =
              map fetchExternalIp failing @ (es, Inr ip) # replicate (length later) ([], Inr ip))
       \<and> computeExternalIp b (Some ip') = (([], Inr ip'), Some ip')
       \<and> (i < length (first # others) \<longrightarrow> snd (computeExternalIp_calls (first # others) None ! i) = Inl a \<longrightarrow>
            (\<exists>a'. snd (fetchExternalIp first) = Inl a'))"
proof (intro conjI impI)
  from calls_failing [OF assms, of "[]"]
  show "computeExternalIp_calls failing None = map fetchExternalIp failing" by simp
next
  assume "fetchExternalIp b = (es, Inr ip)"
  then show "computeExternalIp_calls (failing @ b # later) None =
              map fetchExternalIp failing @ (es, Inr ip) # replicate (length later) ([], Inr ip)"
    by (simp only: calls_failing [OF assms] calls_after_first_success)
next
  show "computeExternalIp b (Some ip') = (([], Inr ip'), Some ip')"
    by (simp add: computeExternalIp_def memoize_def ret_def)
next
  assume i: "i < length (first # others)"
    and f: "snd (computeExternalIp_calls (first # others) None ! i) = Inl a"
  obtain es0 v where p: "fetchExternalIp first = (es0, v)" by (cases "fetchExternalIp first")
  show "\<exists>a'. snd (fetchExternalIp first) = Inl a'"
  proof (cases v)
    case (Inl a')
    with p show ?thesis by simp
  next
    case (Inr ip0)
    with p have "computeExternalIp_calls (first # others) None =
        (es0, Inr ip0) # replicate (length others) ([], Inr ip0)"
      by (simp only: calls_after_first_success)
    with i f have False by (cases i) simp_all
    then show ?thesis ..
  qed
qed

theorem external_ip_memoized_witness:
  "computeExternalIp_calls [offline_bridge, plain_bridge, plain_bridge, offline_bridge] None =
     [fetchExternalIp offline_bridge, ([ConsoleLog ''fetchExternalIp: Fetching...'', NetFetch, ConsoleLog ''fetchExternalIp: Determined''], Inr [49, 46, 50, 46, 51, 46, 52]), ([], Inr [49, 46, 50, 46, 51, 46, 52]), ([], Inr [49, 46, 50, 46, 51, 46, 52])]
   \<and> computeExternalIp plain_bridge (Some [49, 46, 50, 46, 51, 46, 52]) = (([], Inr [49, 46, 50, 46, 51, 46, 52]), Some [49, 46, 50, 46, 51, 46, 52])
   \<and> snd (computeExternalIp_calls [offline_bridge, plain_bridge] None ! 0) =
       Inl (Throw (Thrown ''network unreachable''))
   \<and> snd (fetchExternalIp offline_bridge) = Inl (Throw (Thrown ''network unreachable''))"
proof -
  have a: "\<forall>b\<in>set [offline_bridge]. \<exists>es a. fetchExternalIp b = (es, Inl a)"
    by (simp add: fetch_offline)
  have b: "fetchExternalIp plain_bridge = ([ConsoleLog ''fetchExternalIp: Fetching...'', NetFetch, ConsoleLog ''fetchExternalIp: Determined''], Inr [49, 46, 50, 46, 51, 46, 52])"
    by (rule fetch_found [OF trace_plain])
  have c: "snd (computeExternalIp_calls [offline_bridge, plain_bridge] None ! 0) =
       Inl (Throw (Thrown ''network unreachable''))"
    by (simp add: lookup_offline)
  show ?thesis
    using external_ip_memoized [OF a, where b = plain_bridge and es = "[ConsoleLog ''fetchExternalIp: Fetching...'', NetFetch, ConsoleLog ''fetchExternalIp: Determined'']" and ip = "[49, 46, 50, 46, 51, 46, 52]"
        and later = "[plain_bridge, offline_bridge]" and ip' = "[49, 46, 50, 46, 51, 46, 52]" and i = 0
        and first = offline_bridge and others = "[plain_bridge]"
        and a = "Throw (Thrown ''network unreachable'')"] b c
    by (simp add: fetch_offline del: computeExternalIp_calls.simps)
qed

end
